theory Spec2Isabelle
  imports Main "HOL-Library.FSet"
begin

section \<open>Bytes, decimal numbers and text\<close>

text \<open>
  Go byte slices and strings are both sequences of bytes; they are modelled as
  \<open>char list\<close>. Go's \<open>int\<close> is a 64-bit integer; lengths and counters stay far
  below its bounds, so they are modelled as \<open>int\<close>, and the one place where the
  width is observable (\<open>strconv.Atoi\<close> rejecting values out of range, and the
  sum \<open>count + 2\<close> in the bulk reader) writes the bounds out.
\<close>

type_synonym bytes = string

definition CRLF :: bytes where
  "CRLF = [CHR 0x0D, CHR 0x0A]"

definition maxInt :: int where
  "maxInt = 9223372036854775807"

definition minInt :: int where
  "minInt = - 9223372036854775808"

text \<open>\<open>strconv.Itoa\<close>: the decimal representation of an integer.\<close>

fun digits :: "nat \<Rightarrow> string" where
  "digits n =
     (if n < 10 then [''0123456789'' ! n]
      else digits (n div 10) @ [''0123456789'' ! (n mod 10)])"

declare digits.simps [simp del]

definition Itoa :: "int \<Rightarrow> string" where
  "Itoa i = (if i < 0 then CHR ''-'' # digits (nat (- i)) else digits (nat i))"

text \<open>
  \<open>strconv.Atoi\<close>: an optional sign followed by at least one decimal digit, and
  a value that fits the 64-bit \<open>int\<close>; anything else is an error (\<open>None\<close>).
\<close>

definition isDigit :: "char \<Rightarrow> bool" where
  "isDigit c = (c \<in> set ''0123456789'')"

definition digitVal :: "char \<Rightarrow> int" where
  "digitVal c = int (of_char c) - 48"

definition Atoi :: "string \<Rightarrow> int option" where
  "Atoi s =
     (case s of
        [] \<Rightarrow> None
      | c # cs \<Rightarrow>
          (let neg = (c = CHR ''-'');
               ds = (if c = CHR ''-'' \<or> c = CHR ''+'' then cs else s)
           in if ds = [] \<or> \<not> list_all isDigit ds then None
              else (let n = foldl (\<lambda>a d. a * 10 + digitVal d) 0 ds;
                        v = (if neg then - n else n)
                    in if v < minInt \<or> maxInt < v then None else Some v)))"

text \<open>\<open>strings.Join\<close>.\<close>

fun Join :: "string list \<Rightarrow> string \<Rightarrow> string" where
  "Join [] sep = []"
| "Join [s] sep = s"
| "Join (s # t # ss) sep = s @ sep @ Join (t # ss) sep"






section \<open>Command arguments\<close>

text \<open>
  A command argument is an \<open>interface{}\<close>; the encoder inspects its dynamic type.
  The variants below are the dynamic types the encoder tells apart. A scalar is
  either a \<open>Value\<close> (a byte slice type of its own) or one of the types
  \<open>valueToBytes\<close> converts: a string, a byte slice, a string slice, a string map,
  or a type printed by \<open>fmt.Sprintf("%v", _)\<close>, of which integers and booleans are
  modelled. A \<open>Hash\<close> is a Go map; it is modelled by its entries in the order in
  which the \<open>range\<close> loop of the encoder visits them.
\<close>

datatype plain =
    PString string
  | PBytes bytes
  | PStrings "string list"
  | PStringMap "(string \<times> string) list"
  | PInt int
  | PBool bool

datatype scalar = IsValue bytes | NotValue plain

type_synonym Hash = "(string \<times> bytes) list"

text \<open>The interface \<open>valuer\<close> with its two methods.\<close>

record valuer =
  vLen :: int
  vValues :: "bytes list"

text \<open>The interface \<open>Hashable\<close>, as far as the encoder calls it.\<close>

record Hashable =
  hLen :: int
  GetHash :: Hash

datatype arg =
    AValuer valuer
  | AHash Hash
  | AHashable Hashable
  | AScalar scalar


section \<open>Encoding a command (resp.go, tools.go)\<close>

text \<open>\<open>join\<close>: the parts it is called with are byte slices, strings and ints.\<close>

datatype part = ByteP bytes | StrP string | IntP int

fun joinPart :: "part \<Rightarrow> bytes" where
  "joinPart (ByteP b) = b"
| "joinPart (StrP s) = s"
| "joinPart (IntP i) = Itoa i"

definition join :: "part list \<Rightarrow> bytes" where
  "join parts = foldl (\<lambda>tmp p. tmp @ joinPart p) [] parts"

fun valueToBytes :: "plain \<Rightarrow> bytes" where
  "valueToBytes (PString s) = s"
| "valueToBytes (PBytes b) = b"
| "valueToBytes (PStrings ss) = Join ss CRLF"
| "valueToBytes (PStringMap kvs) = Join (map (\<lambda>(k, v). k @ '':'' @ v) kvs) CRLF"
| "valueToBytes (PInt i) = Itoa i"
| "valueToBytes (PBool b) = (if b then ''true'' else ''false'')"

text \<open>\<open>Hash.Len\<close> is the number of entries of the map.\<close>

definition HashLen :: "Hash \<Rightarrow> int" where
  "HashLen h = int (length h)"

definition lengthStep :: "int \<Rightarrow> arg \<Rightarrow> int" where
  "lengthStep len a =
     (case a of
        AValuer v \<Rightarrow> len + vLen v
      | AHash h \<Rightarrow> len + HashLen h * 2
      | AHashable h \<Rightarrow> len + hLen h * 2
      | AScalar _ \<Rightarrow> len + 1)"

definition buildLengthPart :: "arg list \<Rightarrow> bytes" where
  "buildLengthPart args = join [StrP ''*'', IntP (foldl lengthStep 1 args), StrP CRLF]"

definition rawOf :: "scalar \<Rightarrow> bytes" where
  "rawOf v = (case v of IsValue b \<Rightarrow> b | NotValue p \<Rightarrow> valueToBytes p)"

definition buildValuePart :: "scalar \<Rightarrow> bytes" where
  "buildValuePart v =
     (let raw = rawOf v
      in join [StrP ''$'', IntP (int (length raw)), StrP CRLF, ByteP raw, StrP CRLF])"

definition buildValuesPart :: "valuer \<Rightarrow> bytes" where
  "buildValuesPart vs = foldl (\<lambda>tmp v. tmp @ buildValuePart (IsValue v)) [] (vValues vs)"

definition buildHashPart :: "Hash \<Rightarrow> bytes" where
  "buildHashPart h =
     foldl (\<lambda>tmp (k, v). (tmp @ buildValuePart (NotValue (PString k))) @ buildValuePart (IsValue v))
       [] h"

definition argPart :: "arg \<Rightarrow> bytes" where
  "argPart a =
     (case a of
        AValuer v \<Rightarrow> buildValuesPart v
      | AHash h \<Rightarrow> buildHashPart h
      | AHashable h \<Rightarrow> buildHashPart (GetHash h)
      | AScalar s \<Rightarrow> buildValuePart s)"

definition buildArgumentsPart :: "arg list \<Rightarrow> bytes" where
  "buildArgumentsPart args = foldl (\<lambda>tmp a. tmp @ argPart a) [] args"

text \<open>The packet \<open>sendCommand\<close> writes to the connection.\<close>

definition packet :: "string \<Rightarrow> arg list \<Rightarrow> bytes" where
  "packet cmd args =
     join [ByteP (buildLengthPart args),
           ByteP (buildValuePart (NotValue (PString cmd))),
           ByteP (buildArgumentsPart args)]"

text \<open>
  The wire format in the words of the specification: the units an argument adds to
  the array header, the elements it expands to, and the frame of one element.
\<close>

fun units :: "arg \<Rightarrow> int" where
  "units (AScalar s) = 1"
| "units (AValuer v) = int (length (vValues v))"
| "units (AHash h) = 2 * int (length h)"
| "units (AHashable h) = 2 * int (length (GetHash h))"

fun hashElements :: "Hash \<Rightarrow> bytes list" where
  "hashElements [] = []"
| "hashElements ((k, v) # h) = k # v # hashElements h"

fun elements :: "arg \<Rightarrow> bytes list" where
  "elements (AScalar (IsValue b)) = [b]"
| "elements (AScalar (NotValue p)) = [valueToBytes p]"
| "elements (AValuer v) = vValues v"
| "elements (AHash h) = hashElements h"
| "elements (AHashable h) = hashElements (GetHash h)"

definition frame :: "bytes \<Rightarrow> bytes" where
  "frame raw = ''$'' @ Itoa (int (length raw)) @ CRLF @ raw @ CRLF"

text \<open>
  An implementation of \<open>valuer\<close> or \<open>Hashable\<close> reports its own length; the
  header counts what \<open>Len\<close> reports, the frames are those of \<open>Values\<close> and
  \<open>GetHash\<close>. The two agree for an argument that reports its length truthfully.
\<close>

fun truthful :: "arg \<Rightarrow> bool" where
  "truthful (AValuer v) = (vLen v = int (length (vValues v)))"
| "truthful (AHashable h) = (hLen h = int (length (GetHash h)))"
| "truthful _ = True"


section \<open>Failures and panics\<close>

text \<open>
  An \<open>error\<close> value a function returns is a \<open>failure\<close>. A run-time panic is not a
  returned value: a function whose body can panic returns \<open>Panic\<close> instead of
  \<open>Ret\<close>. No function of the package recovers from a panic.
\<close>

datatype failure =
    PoolClosed
  | PoolLimit int
  | CannotEstablish
  | CannotSend string
  | CannotReceive string
  | ServerRespondedError
  | ReadFullFailed
  | InvalidServerResponse bytes
  | TimeoutWaiting
  | UseSubscription
  | CannotAuthenticate
  | CannotSelectDatabase
  | NoSuchValue
  | UseOfClosedConnection
  | TickerExceeded

datatype panic = SliceBoundsOutOfRange | MakeSliceLenOutOfRange | NilPointerDereference

datatype 'a res = Ret 'a | Panic panic


section \<open>Decoding one response (resp.go)\<close>

datatype responseKind =
    receivingError
  | timeoutError
  | statusResponse
  | errorResponse
  | integerResponse
  | bulkResponse
  | nullBulkResponse
  | arrayResponse

text \<open>The field \<open>data\<close> is a byte slice that may be \<open>nil\<close> (\<open>None\<close>).\<close>

record response =
  kind :: responseKind
  len :: int
  data :: "bytes option"
  err :: "failure option"

definition mkResponse :: "responseKind \<Rightarrow> int \<Rightarrow> bytes option \<Rightarrow> failure option \<Rightarrow> response" where
  "mkResponse k n d e = \<lparr>kind = k, len = n, data = d, err = e\<rparr>"

text \<open>
  The buffered reader is modelled by the bytes the connection still delivers. A
  read that needs more bytes than the connection delivers fails, and the bytes
  delivered so far are consumed.

  \<open>ReadBytes('\n')\<close> returns the bytes up to and including the first line feed.
\<close>

fun ReadBytes :: "bytes \<Rightarrow> (bytes \<times> bytes) option" where
  "ReadBytes [] = None"
| "ReadBytes (c # cs) =
     (if c = CHR 0x0A then Some ([c], cs)
      else (case ReadBytes cs of None \<Rightarrow> None | Some (l, rest) \<Rightarrow> Some (c # l, rest)))"

text \<open>\<open>io.ReadFull\<close> into a buffer of \<open>n\<close> bytes.\<close>

definition ReadFull :: "nat \<Rightarrow> bytes \<Rightarrow> (bytes \<times> bytes) option" where
  "ReadFull n inp = (if length inp < n then None else Some (take n inp, drop n inp))"

text \<open>Addition of 64-bit ints wraps around.\<close>

definition wrap64 :: "int \<Rightarrow> int" where
  "wrap64 x = (x - minInt) mod 18446744073709551616 + minInt"

text \<open>
  The slice expression \<open>s[lo:hi]\<close> panics unless \<open>0 \<le> lo \<le> hi \<le> len(s)\<close>.
\<close>

definition slice :: "bytes \<Rightarrow> int \<Rightarrow> int \<Rightarrow> bytes res" where
  "slice s lo hi =
     (if 0 \<le> lo \<and> lo \<le> hi \<and> hi \<le> int (length s)
      then Ret (take (nat hi - nat lo) (drop (nat lo) s))
      else Panic SliceBoundsOutOfRange)"

text \<open>
  The bulk branch of \<open>receiveResponse\<close>, after the declared count has been
  parsed: the buffer of \<open>count + 2\<close> bytes is allocated (a negative length
  panics), filled from the reader, and cut back to \<open>count\<close> bytes.
\<close>

definition receiveBulk :: "int \<Rightarrow> bytes \<Rightarrow> (response \<times> bytes) res" where
  "receiveBulk count inp =
     (let toRead = wrap64 (count + 2)
      in if toRead < 0 then Panic MakeSliceLenOutOfRange
         else (case ReadFull (nat toRead) inp of
                 None \<Rightarrow> Ret (mkResponse receivingError 0 None (Some ReadFullFailed), [])
               | Some (buffer, rest) \<Rightarrow>
                   (case slice buffer 0 count of
                      Panic p \<Rightarrow> Panic p
                    | Ret d \<Rightarrow> Ret (mkResponse bulkResponse 0 (Some d) None, rest))))"

text \<open>
  \<open>receiveResponse\<close>; the first argument is the field \<open>cmd\<close> of the protocol
  instance, the second the bytes its reader still delivers. The result is the
  response and the bytes left in the reader.
\<close>

definition receiveResponse :: "string \<Rightarrow> bytes \<Rightarrow> (response \<times> bytes) res" where
  "receiveResponse cmd inp =
     (case ReadBytes inp of
        None \<Rightarrow> Ret (mkResponse receivingError 0 None (Some (CannotReceive cmd)), [])
      | Some (line, rest) \<Rightarrow>
          (case slice line 1 (int (length line) - 2) of
             Panic p \<Rightarrow> Panic p
           | Ret content \<Rightarrow>
               (let c = hd line; whole = take (length line - 2) line
                in if c = CHR ''+'' then Ret (mkResponse statusResponse 0 (Some whole) None, rest)
                   else if c = CHR ''-'' then Ret (mkResponse errorResponse 0 (Some whole) None, rest)
                   else if c = CHR '':'' then Ret (mkResponse integerResponse 0 (Some content) None, rest)
                   else if c = CHR ''$'' then
                     (case Atoi content of
                        None \<Rightarrow> Ret (mkResponse receivingError 0 None (Some ServerRespondedError), rest)
                      | Some count \<Rightarrow>
                          if count = - 1 then Ret (mkResponse nullBulkResponse 0 None None, rest)
                          else receiveBulk count rest)
                   else if c = CHR ''*'' then
                     (case Atoi content of
                        None \<Rightarrow> Ret (mkResponse receivingError 0 None (Some ServerRespondedError), rest)
                      | Some n \<Rightarrow>
                          if n = - 1 then Ret (mkResponse timeoutError 0 None None, rest)
                          else Ret (mkResponse arrayResponse n None None, rest))
                   else Ret (mkResponse receivingError 0 None (Some (InvalidServerResponse line)), rest))))"


section \<open>Result sets\<close>

text \<open>
  Modelled from the spec: the type \<open>ResultSet\<close> with \<open>newResultSet\<close>, \<open>append\<close>,
  \<open>Len\<close>, \<open>allReceived\<close>, \<open>nextResultSet\<close> and \<open>ValueAt\<close> (values.go) is missing
  from the sources. A result set is an ordered sequence of values and nested
  result sets with a declared length; it is complete when it holds as many items
  as declared, and a fresh one is completed by a single value.

  The source links a nested result set to its parent by a pointer and appends it
  to the parent when it is created. Here the cursor of the decoder is the result
  set under construction together with its unfinished ancestors, innermost
  first; an ancestor on that stack does not hold the nested result set under
  construction yet, which is appended when the cursor ascends. The cursor is at
  the root when the stack is empty.
\<close>

datatype resultSet = ResultSet (declared: int) (items: "item list")
  and item = Val "bytes option" | Sub resultSet

definition newResultSet :: resultSet where
  "newResultSet = ResultSet 1 []"

definition rsAppend :: "resultSet \<Rightarrow> item \<Rightarrow> resultSet" where
  "rsAppend rs i = ResultSet (declared rs) (items rs @ [i])"

definition setDeclared :: "resultSet \<Rightarrow> int \<Rightarrow> resultSet" where
  "setDeclared rs n = ResultSet n (items rs)"

definition Len :: "resultSet \<Rightarrow> int" where
  "Len rs = int (length (items rs))"

definition allReceived :: "resultSet \<Rightarrow> bool" where
  "allReceived rs = (declared rs \<le> Len rs)"

text \<open>
  \<open>nextResultSet\<close> ascends while the result set under the cursor is complete;
  \<open>Inr root\<close> is the cursor above the root (\<open>nil\<close> in the source), with the
  finished root.
\<close>

fun nextResultSet :: "resultSet \<Rightarrow> resultSet list \<Rightarrow> (resultSet \<times> resultSet list) + resultSet" where
  "nextResultSet cur [] = (if allReceived cur then Inr cur else Inl (cur, []))"
| "nextResultSet cur (p # ps) =
     (if allReceived cur then nextResultSet (rsAppend p (Sub cur)) ps else Inl (cur, p # ps))"

text \<open>\<open>ValueAt\<close>: the value at an index, a failure when there is none.\<close>

definition ValueAt :: "resultSet \<Rightarrow> nat \<Rightarrow> bytes option option \<times> failure option" where
  "ValueAt rs i =
     (if i < length (items rs)
      then (case items rs ! i of Val v \<Rightarrow> (Some v, None) | Sub _ \<Rightarrow> (None, Some NoSuchValue))
      else (None, Some NoSuchValue))"


section \<open>Decoding a result set (resp.go)\<close>

text \<open>
  The switch on the kind of a response that carries a value or opens an array:
  what it does to the cursor.
\<close>

definition place :: "response \<Rightarrow> resultSet \<Rightarrow> resultSet list \<Rightarrow> resultSet \<times> resultSet list" where
  "place r cur stack =
     (if kind r = arrayResponse then
        (if stack = [] \<and> Len cur = 0 then (setDeclared cur (len r), stack)
         else if \<not> allReceived cur then (setDeclared newResultSet (len r), cur # stack)
         else (cur, stack))
      else (rsAppend cur (Val (data r)), stack))"

text \<open>
  The loop of \<open>receiveResultSet\<close>. It returns the pair of the source, a result
  set or \<open>nil\<close> and an error or \<open>nil\<close>, and the bytes left in the reader.
\<close>

function receiveLoop ::
  "string \<Rightarrow> resultSet \<Rightarrow> resultSet list \<Rightarrow> bytes \<Rightarrow> ((resultSet option \<times> failure option) \<times> bytes) res" where
  "receiveLoop cmd cur stack inp =
     (case receiveResponse cmd inp of
        Panic p \<Rightarrow> Panic p
      | Ret (r, rest) \<Rightarrow>
          if kind r = receivingError then Ret ((None, err r), rest)
          else if kind r = timeoutError then Ret ((None, Some TimeoutWaiting), rest)
          else (case nextResultSet (fst (place r cur stack)) (snd (place r cur stack)) of
                  Inr root \<Rightarrow> Ret ((Some root, None), rest)
                | Inl (cur', stack') \<Rightarrow> receiveLoop cmd cur' stack' rest))"
  by pat_completeness auto

lemma ReadBytes_shorter: "ReadBytes inp = Some (l, rest) \<Longrightarrow> length rest < length inp"
  by (induction inp arbitrary: l rest) (auto split: if_splits option.splits)

lemma receiveBulk_shorter: "receiveBulk count inp = Ret (r, rest) \<Longrightarrow> length rest \<le> length inp"
  by (auto simp: receiveBulk_def Let_def ReadFull_def split: if_splits option.splits res.splits)

lemma receiveResponse_shorter:
  assumes "receiveResponse cmd inp = Ret (r, rest)" and "kind r \<noteq> receivingError"
  shows "length rest < length inp"
proof (cases "ReadBytes inp")
  case None
  with assms show ?thesis by (auto simp: receiveResponse_def mkResponse_def)
next
  case (Some lr)
  obtain line rest0 where lr: "lr = (line, rest0)" by (cases lr)
  have a: "length rest0 < length inp" using Some lr ReadBytes_shorter by simp
  have "length rest \<le> length rest0"
    using assms Some lr
    by (auto simp: receiveResponse_def Let_def mkResponse_def
        split: res.splits if_splits option.splits dest: receiveBulk_shorter)
  with a show ?thesis by simp
qed

termination receiveLoop
  by (relation "measure (\<lambda>(cmd, cur, stack, inp). length inp)") (auto dest: receiveResponse_shorter)

declare receiveLoop.simps [simp del]


section \<open>Protocol instances, the database and the environment\<close>

text \<open>
  A \<open>*resp\<close> is \<open>nil\<close> (\<open>None\<close>) or the address of a protocol instance. The
  instance holds the last command name and its connection: the bytes the reader
  still delivers, the bytes written so far, and whether the peer has gone, in
  which case writing fails.
\<close>

type_synonym ptr = "nat option"

record resp =
  cmd :: string
  reader :: bytes
  written :: bytes
  broken :: bool

text \<open>The configuration of a \<open>Database\<close> that the pool and the handshake read.\<close>

record Database =
  password :: string
  index :: int
  poolsize :: int

text \<open>
  The heap of protocol instances. Addresses below \<open>allocated\<close> are taken; a new
  instance gets the address \<open>allocated\<close>. The set \<open>closed\<close> holds the instances
  whose connection has been closed, \<open>now\<close> is the clock in nanoseconds.
\<close>

record world =
  heap :: "nat \<Rightarrow> resp"
  allocated :: nat
  closed :: "ptr fset"
  now :: int

text \<open>
  \<open>newResp\<close> dials the server. The outcome of the dial is given by the
  environment: \<open>None\<close> when it fails, otherwise the bytes the new connection will
  deliver and whether writing to it fails. Nothing is written to the new
  connection.
\<close>

type_synonym dial = "(bytes \<times> bool) option"

definition newResp :: "dial \<Rightarrow> world \<Rightarrow> (ptr \<times> failure option) \<times> world" where
  "newResp d w =
     (case d of
        None \<Rightarrow> ((None, Some CannotEstablish), w)
      | Some (script, gone) \<Rightarrow>
          ((Some (allocated w), None),
           w\<lparr>heap := (heap w)(allocated w := \<lparr>cmd = [], reader = script, written = [], broken = gone\<rparr>),
             allocated := Suc (allocated w)\<rparr>))"

text \<open>
  \<open>resp.close\<close> closes the connection; closing a closed connection is an error.
  The receiver is dereferenced, so a \<open>nil\<close> receiver panics.
\<close>

definition resp_close :: "ptr \<Rightarrow> world \<Rightarrow> (failure option \<times> world) res" where
  "resp_close r w =
     (case r of
        None \<Rightarrow> Panic NilPointerDereference
      | Some a \<Rightarrow>
          Ret (if r |\<in>| closed w then Some UseOfClosedConnection else None,
               w\<lparr>closed := finsert r (closed w)\<rparr>))"

text \<open>\<open>sendCommand\<close> stores the command name and writes the packet.\<close>

definition sendCommand :: "ptr \<Rightarrow> string \<Rightarrow> arg list \<Rightarrow> world \<Rightarrow> (failure option \<times> world) res" where
  "sendCommand r c args w =
     (case r of
        None \<Rightarrow> Panic NilPointerDereference
      | Some a \<Rightarrow>
          (let i = (heap w a)\<lparr>cmd := c\<rparr>
           in if broken i \<or> r |\<in>| closed w
              then Ret (Some (CannotSend c), w\<lparr>heap := (heap w)(a := i)\<rparr>)
              else Ret (None, w\<lparr>heap := (heap w)(a := i\<lparr>written := written i @ packet c args\<rparr>)\<rparr>)))"

text \<open>
  \<open>receiveResultSet\<close> runs the loop from a fresh result set and resets the
  command name when it returns. A closed connection delivers nothing.
\<close>

definition receiveResultSet :: "ptr \<Rightarrow> world \<Rightarrow> ((resultSet option \<times> failure option) \<times> world) res" where
  "receiveResultSet r w =
     (case r of
        None \<Rightarrow> Panic NilPointerDereference
      | Some a \<Rightarrow>
          (let i = heap w a
           in case receiveLoop (cmd i) newResultSet [] (if r |\<in>| closed w then [] else reader i) of
                Panic p \<Rightarrow> Panic p
              | Ret (res, rest) \<Rightarrow>
                  Ret (res, w\<lparr>heap := (heap w)(a := i\<lparr>cmd := ''-none-'', reader := rest\<rparr>)\<rparr>)))"

text \<open>
  Modelled from the spec: \<open>Value.IsOK\<close> (values.go) is missing from the sources;
  it holds for the value of the status reply OK, which the decoder delivers with
  its leading type byte.
\<close>

definition IsOK :: "bytes option \<Rightarrow> bool" where
  "IsOK v = (v = Some ''+OK'')"

text \<open>
  The common tail of \<open>authenticate\<close> and \<open>selectDatabase\<close>: receive the result
  set, take its first value and require OK; every failure is reported as the
  given one.
\<close>

definition expectOK :: "failure \<Rightarrow> ptr \<Rightarrow> world \<Rightarrow> (failure option \<times> world) res" where
  "expectOK f r w =
     (case receiveResultSet r w of
        Panic p \<Rightarrow> Panic p
      | Ret ((res, e), w') \<Rightarrow>
          (case e of
             Some _ \<Rightarrow> Ret (Some f, w')
           | None \<Rightarrow>
               (case res of
                  None \<Rightarrow> Panic NilPointerDereference
                | Some rs \<Rightarrow>
                    (case ValueAt rs 0 of
                       (Some v, None) \<Rightarrow> if IsOK v then Ret (None, w') else Ret (Some f, w')
                     | _ \<Rightarrow> Ret (Some f, w')))))"

definition authenticate :: "Database \<Rightarrow> ptr \<Rightarrow> world \<Rightarrow> (failure option \<times> world) res" where
  "authenticate db r w =
     (case r of
        None \<Rightarrow> Panic NilPointerDereference
      | Some a \<Rightarrow>
          if password db \<noteq> [] then
            (case sendCommand r ''auth'' [AScalar (NotValue (PString (password db)))] w of
               Panic p \<Rightarrow> Panic p
             | Ret (Some e, w') \<Rightarrow> Ret (Some CannotAuthenticate, w')
             | Ret (None, w') \<Rightarrow> expectOK CannotAuthenticate r w')
          else Ret (None, w))"

definition selectDatabase :: "Database \<Rightarrow> ptr \<Rightarrow> world \<Rightarrow> (failure option \<times> world) res" where
  "selectDatabase db r w =
     (case r of
        None \<Rightarrow> Panic NilPointerDereference
      | Some a \<Rightarrow>
          (case sendCommand r ''select'' [AScalar (NotValue (PInt (index db)))] w of
             Panic p \<Rightarrow> Panic p
           | Ret (Some e, w') \<Rightarrow> Ret (Some CannotSelectDatabase, w')
           | Ret (None, w') \<Rightarrow> expectOK CannotSelectDatabase r w'))"


section \<open>The connection pool (pool.go)\<close>

text \<open>
  The two maps of the pool are keyed by \<open>*resp\<close> and hold the key as value; they
  are the finite sets of their keys. After \<open>close\<close> the map \<open>available\<close> is
  \<open>nil\<close>; a \<open>nil\<close> map reads as the empty one, and the pool writes to it only
  while it is active.
\<close>

record pool =
  active :: bool
  available :: "ptr fset"
  inUse :: "ptr fset"

definition newPool :: pool where
  "newPool = \<lparr>active = True, available = {||}, inUse = {||}\<rparr>"



text \<open>
  \<open>pull\<close>. The \<open>range\<close> loop over the available instances visits them in an
  order the run time chooses; \<open>pick\<close> is the key it visits first. The loop
  returns in its first round; were there no round, control would leave the
  switch and reach the final return.
\<close>

definition pull :: "Database \<Rightarrow> ptr \<Rightarrow> dial \<Rightarrow> pool \<times> world \<Rightarrow> (ptr \<times> failure option) \<times> pool \<times> world" where
  "pull db pick d s =
     (case s of (p, w) \<Rightarrow>
        if \<not> active p then ((None, Some PoolClosed), p, w)
        else if 0 < fcard (available p) then
          (if pick |\<in>| available p
           then ((pick, None), p\<lparr>available := available p |-| {|pick|}, inUse := finsert pick (inUse p)\<rparr>, w)
           else ((None, Some (PoolLimit (poolsize db))), p, w))
        else if int (fcard (inUse p)) < poolsize db then
          (case newResp d w of
             ((r, Some e), w') \<Rightarrow> ((None, Some e), p, w')
           | ((r, None), w') \<Rightarrow> ((r, None), p\<lparr>inUse := finsert r (inUse p)\<rparr>, w'))
        else ((None, Some (PoolLimit (poolsize db))), p, w))"


definition kill :: "ptr \<Rightarrow> pool \<times> world \<Rightarrow> (failure option \<times> pool \<times> world) res" where
  "kill r s =
     (case s of (p, w) \<Rightarrow>
        (let p1 = p\<lparr>inUse := inUse p |-| {|r|}\<rparr>
         in case resp_close r w of Panic x \<Rightarrow> Panic x | Ret (e, w') \<Rightarrow> Ret (e, p1, w')))"


section \<open>Waiting for an instance (pool.go)\<close>

text \<open>
  Modelled from the spec: \<open>wait.WithTimeout\<close> belongs to the library
  \<open>tideland.dev/go/together/wait\<close> and is missing from the sources. It calls the
  condition at every tick of a ticker with the given interval until the
  condition reports true or an error, and fails once the ticker has run for the
  timeout. The clock advances by the interval before each call; the condition
  gets the number of the tick.
\<close>

definition Millisecond :: int where
  "Millisecond = 1000000"

definition Second :: int where
  "Second = 1000000000"

fun ticking ::
  "nat \<Rightarrow> int \<Rightarrow> (nat \<Rightarrow> 'c \<times> pool \<times> world \<Rightarrow> ((bool \<times> failure option) \<times> 'c \<times> pool \<times> world) res)
     \<Rightarrow> nat \<Rightarrow> 'c \<times> pool \<times> world \<Rightarrow> (failure option \<times> 'c \<times> pool \<times> world) res" where
  "ticking 0 interval cond k s = Ret (Some TickerExceeded, s)"
| "ticking (Suc n) interval cond k s =
     (case s of (c, p, w) \<Rightarrow>
        (case cond k (c, p, w\<lparr>now := now w + interval\<rparr>) of
           Panic x \<Rightarrow> Panic x
         | Ret ((ok, e), s') \<Rightarrow>
             (case e of
                Some f \<Rightarrow> Ret (Some f, s')
              | None \<Rightarrow> if ok then Ret (None, s') else ticking n interval cond (Suc k) s')))"

definition WithTimeout ::
  "int \<Rightarrow> int \<Rightarrow> (nat \<Rightarrow> 'c \<times> pool \<times> world \<Rightarrow> ((bool \<times> failure option) \<times> 'c \<times> pool \<times> world) res)
     \<Rightarrow> 'c \<times> pool \<times> world \<Rightarrow> (failure option \<times> 'c \<times> pool \<times> world) res" where
  "WithTimeout interval timeout cond s = ticking (nat (timeout div interval)) interval cond 0 s"

text \<open>
  What the environment contributes to one tick of \<open>pullRetry\<close>: what other
  goroutines do to the pool while the caller waits for the tick (a panic of
  theirs ends the program; the clock is that of the waiting caller), and the
  choices of the \<open>pull\<close> made at the tick.
\<close>

record tick =
  others :: "pool \<times> world \<Rightarrow> (pool \<times> world) res"
  tpick :: ptr
  tdial :: dial

text \<open>
  The condition of \<open>pullRetry\<close>: a closure over the variables \<open>r\<close> and \<open>err\<close>,
  which it assigns from \<open>pull\<close>; it never reports an error.
\<close>

definition retryCond ::
  "Database \<Rightarrow> (nat \<Rightarrow> tick) \<Rightarrow> nat \<Rightarrow> (ptr \<times> failure option) \<times> pool \<times> world
     \<Rightarrow> ((bool \<times> failure option) \<times> (ptr \<times> failure option) \<times> pool \<times> world) res" where
  "retryCond db ticks k s =
     (case s of (c, p, w) \<Rightarrow>
        (case others (ticks k) (p, w) of
           Panic x \<Rightarrow> Panic x
         | Ret (p1, w1) \<Rightarrow>
             (case pull db (tpick (ticks k)) (tdial (ticks k)) (p1, w1\<lparr>now := now w\<rparr>) of
                ((r, e), s2) \<Rightarrow> Ret ((r \<noteq> None, None), (r, e), s2))))"

definition pullRetry ::
  "Database \<Rightarrow> (nat \<Rightarrow> tick) \<Rightarrow> pool \<times> world \<Rightarrow> ((ptr \<times> failure option) \<times> pool \<times> world) res" where
  "pullRetry db ticks s =
     (case WithTimeout (5 * Millisecond) (5 * Second) (retryCond db ticks) ((None, None), s) of
        Panic x \<Rightarrow> Panic x
      | Ret (Some werr, c, s') \<Rightarrow> Ret ((None, Some werr), s')
      | Ret (None, c, s') \<Rightarrow> Ret (c, s'))"


section \<open>Connections (connection.go)\<close>

text \<open>
  A \<open>Connection\<close> holds its database, which is fixed, and a \<open>*resp\<close>. The
  logging of commands writes to the log only and is left out.
\<close>

record Connection =
  conn_resp :: ptr

definition newConnection ::
  "Database \<Rightarrow> (nat \<Rightarrow> tick) \<Rightarrow> pool \<times> world \<Rightarrow> ((Connection option \<times> failure option) \<times> pool \<times> world) res" where
  "newConnection db ticks s =
     (case pullRetry db ticks s of
        Panic x \<Rightarrow> Panic x
      | Ret ((r, Some e), s1) \<Rightarrow> Ret ((None, Some e), s1)
      | Ret ((r, None), p1, w1) \<Rightarrow>
          (case authenticate db r w1 of
             Panic x \<Rightarrow> Panic x
           | Ret (Some e, w2) \<Rightarrow>
               (case kill r (p1, w2) of Panic x \<Rightarrow> Panic x | Ret (_, s3) \<Rightarrow> Ret ((None, Some e), s3))
           | Ret (None, w2) \<Rightarrow>
               (case selectDatabase db r w2 of
                  Panic x \<Rightarrow> Panic x
                | Ret (Some e, w3) \<Rightarrow>
                    (case kill r (p1, w3) of Panic x \<Rightarrow> Panic x | Ret (_, s4) \<Rightarrow> Ret ((None, Some e), s4))
                | Ret (None, w3) \<Rightarrow> Ret ((Some \<lparr>conn_resp = r\<rparr>, None), p1, w3))))"




section \<open>Pipelines (pipeline.go)\<close>








section \<open>Histories of pool operations\<close>





section \<open>Properties of the pool\<close>

text \<open>
  The invariant of the pool: no instance is both available and in use, every
  instance of the pool has been allocated, and the two sets together hold at
  most as many instances as the pool size of the database.
\<close>

definition disjointSets :: "pool \<Rightarrow> bool" where
  "disjointSets p = (available p |\<inter>| inUse p = {||})"

fun below :: "nat \<Rightarrow> ptr \<Rightarrow> bool" where
  "below n None = True"
| "below n (Some a) = (a < n)"

definition allocatedOnly :: "pool \<times> world \<Rightarrow> bool" where
  "allocatedOnly s = fBall (available (fst s) |\<union>| inUse (fst s)) (below (allocated (snd s)))"

definition withinCapacity :: "Database \<Rightarrow> pool \<Rightarrow> bool" where
  "withinCapacity db p = (int (fcard (available p) + fcard (inUse p)) \<le> poolsize db)"

definition poolInv :: "Database \<Rightarrow> pool \<times> world \<Rightarrow> bool" where
  "poolInv db s = (disjointSets (fst s) \<and> allocatedOnly s \<and> withinCapacity db (fst s))"

text \<open>The world before any instance has been allocated.\<close>

definition world0 :: world where
  "world0 =
     \<lparr>heap = (\<lambda>_. \<lparr>cmd = [], reader = [], written = [], broken = False\<rparr>),
      allocated = 0, closed = {||}, now = 0\<rparr>"


text \<open>A database without a password and with room for a single instance.\<close>

definition db1 :: Database where
  "db1 = \<lparr>password = [], index = 0, poolsize = 1\<rparr>"

text \<open>A pool that lends out the instance at address 0, and the world it lives in.\<close>

definition lent0 :: pool where
  "lent0 = \<lparr>active = True, available = {||}, inUse = {|Some 0|}\<rparr>"

definition idle0 :: pool where
  "idle0 = \<lparr>active = True, available = {|Some 0|}, inUse = {||}\<rparr>"

definition world1 :: world where
  "world1 = world0\<lparr>allocated := 1\<rparr>"








text \<open>
  An instance is gone from the pool when it is neither available nor in use, its
  address is allocated, so that no new instance gets it, and its connection is
  closed. An operation spares an instance when it does not push it back;
  for \<open>pullRetry\<close> this is asked of what the other goroutines do in the
  meantime.
\<close>

definition removed :: "ptr \<Rightarrow> pool \<times> world \<Rightarrow> bool" where
  "removed r s =
     (r |\<notin>| available (fst s) \<and> r |\<notin>| inUse (fst s) \<and> below (allocated (snd s)) r
      \<and> r |\<in>| closed (snd s))"




section \<open>The wire format of a command\<close>

lemma join_concat: "join ps = concat (map joinPart ps)"
proof -
  have "foldl (\<lambda>tmp p. tmp @ joinPart p) acc ps = acc @ concat (map joinPart ps)" for acc
    by (induction ps arbitrary: acc) auto
  then show ?thesis by (simp add: join_def)
qed

lemma foldl_lengthStep:
  "list_all truthful args \<Longrightarrow> foldl lengthStep n args = n + sum_list (map units args)"
proof (induction args arbitrary: n)
  case Nil
  then show ?case by simp
next
  case (Cons a args)
  then show ?case by (cases a) (auto simp: lengthStep_def HashLen_def)
qed

lemma buildValuePart_frame: "buildValuePart v = frame (rawOf v)"
  by (simp add: buildValuePart_def frame_def join_concat Let_def)

lemma buildValuesPart_frames: "buildValuesPart vs = concat (map frame (vValues vs))"
proof -
  have "foldl (\<lambda>tmp v. tmp @ buildValuePart (IsValue v)) acc xs = acc @ concat (map frame xs)"
    for acc xs
    by (induction xs arbitrary: acc) (auto simp: buildValuePart_frame rawOf_def)
  then show ?thesis by (simp add: buildValuesPart_def)
qed

lemma buildHashPart_frames: "buildHashPart h = concat (map frame (hashElements h))"
proof -
  have "foldl (\<lambda>tmp (k, v). (tmp @ buildValuePart (NotValue (PString k))) @ buildValuePart (IsValue v)) acc h
        = acc @ concat (map frame (hashElements h))" for acc
    by (induction h arbitrary: acc) (auto simp: buildValuePart_frame rawOf_def)
  then show ?thesis by (simp add: buildHashPart_def)
qed

lemma argPart_frames: "argPart a = concat (map frame (elements a))"
  by (cases a)
    (auto simp: argPart_def buildValuesPart_frames buildHashPart_frames buildValuePart_frame rawOf_def
      split: scalar.splits)

lemma buildArgumentsPart_frames:
  "buildArgumentsPart args = concat (map frame (concat (map elements args)))"
proof -
  have "foldl (\<lambda>tmp a. tmp @ argPart a) acc args
        = acc @ concat (map frame (concat (map elements args)))" for acc
    by (induction args arbitrary: acc) (auto simp: argPart_frames)
  then show ?thesis by (simp add: buildArgumentsPart_def)
qed

lemma length_hashElements: "length (hashElements h) = 2 * length h"
  by (induction h) auto

lemma units_elements: "truthful a \<Longrightarrow> units a = int (length (elements a))"
proof (cases a)
  case (AScalar s)
  then show ?thesis by (cases s) auto
qed (auto simp: length_hashElements)

text \<open>
  C4. For a command \<open>name\<close> with arguments \<open>args\<close> whose list-like and hashable
  arguments report their length truthfully, the length part is \<open>*\<close>, the decimal
  number 1 plus the units of the arguments (one for a scalar, the number of
  contained values for a valuer, twice the number of entries for a Hash or a
  Hashable) and the line terminator; that number is the number of elements
  framed; every value part is \<open>$\<close>, the decimal byte length, the terminator, the
  raw bytes and the terminator, where the raw bytes of a scalar that is not a
  Value are its text; and the packet is the length part followed by the frames
  of the command name and of the elements of the arguments in order.
\<close>

theorem encode_command:
  assumes "list_all truthful args"
  shows "buildLengthPart args = ''*'' @ Itoa (1 + sum_list (map units args)) @ CRLF
       \<and> 1 + sum_list (map units args) = int (length (name # concat (map elements args)))
       \<and> buildValuePart (IsValue b) = ''$'' @ Itoa (int (length b)) @ CRLF @ b @ CRLF
       \<and> buildValuePart (NotValue v)
           = ''$'' @ Itoa (int (length (valueToBytes v))) @ CRLF @ valueToBytes v @ CRLF
       \<and> packet name args
           = buildLengthPart args @ concat (map frame (name # concat (map elements args)))"
proof -
  have "sum_list (map units args) = int (length (concat (map elements args)))"
    using assms by (induction args) (auto simp: units_elements)
  then show ?thesis
    using assms
    by (simp add: buildLengthPart_def join_concat foldl_lengthStep packet_def buildValuePart_frame
        buildArgumentsPart_frames rawOf_def frame_def)
qed

theorem encode_command_witness:
  "list_all truthful
     [AScalar (NotValue (PString ''k'')), AScalar (NotValue (PInt (- 12))), AHash [(''a'', ''1'')]]
   \<and> packet ''set''
       [AScalar (NotValue (PString ''k'')), AScalar (NotValue (PInt (- 12))), AHash [(''a'', ''1'')]]
     = ''*5'' @ CRLF @ ''$3'' @ CRLF @ ''set'' @ CRLF @ ''$1'' @ CRLF @ ''k'' @ CRLF
       @ ''$3'' @ CRLF @ ''-12'' @ CRLF @ ''$1'' @ CRLF @ ''a'' @ CRLF @ ''$1'' @ CRLF @ ''1'' @ CRLF"
  using encode_command
    [of "[AScalar (NotValue (PString ''k'')), AScalar (NotValue (PInt (- 12))), AHash [(''a'', ''1'')]]"
      "''set''" "[]" "PInt 0"]
  by (simp add: frame_def Itoa_def digits.simps)


section \<open>The pool operations case by case\<close>

lemma newResp_cases:
  "newResp d w = ((r, e), w') \<Longrightarrow>
     (d = None \<and> r = None \<and> e = Some CannotEstablish \<and> w' = w) \<or>
     (\<exists>script gone. d = Some (script, gone) \<and> r = Some (allocated w) \<and> e = None
        \<and> w' = w\<lparr>heap := (heap w)(allocated w := \<lparr>cmd = [], reader = script, written = [], broken = gone\<rparr>),
                 allocated := Suc (allocated w)\<rparr>)"
  by (auto simp: newResp_def split: option.splits)

lemma fcard_pos: "0 < fcard A \<longleftrightarrow> A \<noteq> {||}"
  by (simp only: zero_less_iff_neq_zero fcard_0_eq)

lemma pull_cases:
  assumes "pull db pick d (p, w) = ((r, e), p', w')"
  shows "(\<not> active p \<and> r = None \<and> e = Some PoolClosed \<and> p' = p \<and> w' = w)
       \<or> (active p \<and> available p \<noteq> {||} \<and> pick |\<in>| available p \<and> r = pick \<and> e = None
            \<and> p' = p\<lparr>available := available p |-| {|pick|}, inUse := finsert pick (inUse p)\<rparr> \<and> w' = w)
       \<or> (active p \<and> available p \<noteq> {||} \<and> pick |\<notin>| available p \<and> r = None
            \<and> e = Some (PoolLimit (poolsize db)) \<and> p' = p \<and> w' = w)
       \<or> (active p \<and> available p = {||} \<and> int (fcard (inUse p)) < poolsize db \<and> d = None
            \<and> r = None \<and> e = Some CannotEstablish \<and> p' = p \<and> w' = w)
       \<or> (active p \<and> available p = {||} \<and> int (fcard (inUse p)) < poolsize db
            \<and> (\<exists>script gone. d = Some (script, gone) \<and> r = Some (allocated w) \<and> e = None
                 \<and> p' = p\<lparr>inUse := finsert (Some (allocated w)) (inUse p)\<rparr>
                 \<and> w' = w\<lparr>heap := (heap w)(allocated w := \<lparr>cmd = [], reader = script, written = [], broken = gone\<rparr>),
                          allocated := Suc (allocated w)\<rparr>))
       \<or> (active p \<and> available p = {||} \<and> \<not> int (fcard (inUse p)) < poolsize db \<and> r = None
            \<and> e = Some (PoolLimit (poolsize db)) \<and> p' = p \<and> w' = w)"
  using assms
  by (auto simp: pull_def newResp_def fcard_pos split: if_splits option.splits prod.splits)








lemma below_fresh: "below n (Some n) \<Longrightarrow> False"
  by simp


lemma allocatedOnly_iff:
  "allocatedOnly (p, w) \<longleftrightarrow> (\<forall>x. (x |\<in>| available p \<or> x |\<in>| inUse p) \<longrightarrow> below (allocated w) x)"
  by (auto simp: allocatedOnly_def)








section \<open>The outcomes of pull\<close>

lemma fresh_not_pooled:
  "allocatedOnly (p, w) \<Longrightarrow> Some (allocated w) |\<notin>| inUse p \<and> Some (allocated w) |\<notin>| available p"
  unfolding allocatedOnly_iff using below_fresh by blast

text \<open>
  C5 (as the code has it). A \<open>pull\<close> on an inactive pool fails with the
  pool-closed error. On an active pool with an available instance, the instance
  the loop visits first is moved to the in-use set and returned. On an active
  pool without available instances and with fewer instances in use than the
  pool size, a connection is dialled: when the dial fails, \<open>pull\<close> returns that
  failure and leaves the pool as it is; when it succeeds, the new instance, to
  which nothing has been written, is put into the in-use set and returned, and
  it was not in use before. Otherwise \<open>pull\<close> fails with the pool-limit error.
\<close>

theorem pull_outcomes:
  assumes "pull db pick d (p, w) = ((r, e), p', w')"
  shows "(\<not> active p \<longrightarrow> r = None \<and> e = Some PoolClosed \<and> p' = p \<and> w' = w)
       \<and> (active p \<and> available p \<noteq> {||} \<and> pick |\<in>| available p \<longrightarrow>
            r = pick \<and> e = None \<and> available p' = available p |-| {|r|}
            \<and> inUse p' = finsert r (inUse p) \<and> active p' \<and> w' = w)
       \<and> (active p \<and> available p = {||} \<and> int (fcard (inUse p)) < poolsize db \<longrightarrow>
            (case d of
               None \<Rightarrow> r = None \<and> e = Some CannotEstablish \<and> p' = p \<and> w' = w
             | Some (script, gone) \<Rightarrow>
                 r = Some (allocated w) \<and> e = None \<and> inUse p' = finsert r (inUse p)
                 \<and> available p' = {||} \<and> active p' \<and> allocated w' = Suc (allocated w)
                 \<and> written (heap w' (allocated w)) = []
                 \<and> (allocatedOnly (p, w) \<longrightarrow> r |\<notin>| inUse p)))
       \<and> (active p \<and> available p = {||} \<and> \<not> int (fcard (inUse p)) < poolsize db \<longrightarrow>
            r = None \<and> e = Some (PoolLimit (poolsize db)) \<and> p' = p \<and> w' = w)"
  using pull_cases [OF assms]
  by (auto dest: fresh_not_pooled)

theorem pull_outcomes_witness:
  "pull db1 None None (lent0\<lparr>active := False\<rparr>, world1) = ((None, Some PoolClosed), lent0\<lparr>active := False\<rparr>, world1)
   \<and> pull db1 (Some 0) None (idle0, world1) = ((Some 0, None), lent0, world1)
   \<and> active idle0 \<and> available idle0 \<noteq> {||} \<and> Some 0 |\<in>| available idle0
   \<and> pull db1 None (Some ([], False)) (newPool, world0)
       = ((Some 0, None), lent0,
          world0\<lparr>heap := (heap world0)(0 := \<lparr>cmd = [], reader = [], written = [], broken = False\<rparr>), allocated := 1\<rparr>)
   \<and> active newPool \<and> available newPool = {||} \<and> int (fcard (inUse newPool)) < poolsize db1
   \<and> allocatedOnly (newPool, world0)
   \<and> pull db1 None None (lent0, world1) = ((None, Some (PoolLimit 1)), lent0, world1)
   \<and> active lent0 \<and> available lent0 = {||} \<and> \<not> int (fcard (inUse lent0)) < poolsize db1"
  using pull_outcomes [of db1 None None "lent0\<lparr>active := False\<rparr>" world1 None "Some PoolClosed" "lent0\<lparr>active := False\<rparr>" world1]
    pull_outcomes [of db1 "Some 0" None idle0 world1 "Some 0" None lent0 world1]
    pull_outcomes [of db1 None "Some ([], False)" newPool world0 "Some 0" None lent0
       "world0\<lparr>heap := (heap world0)(0 := \<lparr>cmd = [], reader = [], written = [], broken = False\<rparr>), allocated := 1\<rparr>"]
    pull_outcomes [of db1 None None lent0 world1 None "Some (PoolLimit 1)" lent0 world1]
  by (simp add: pull_def newResp_def db1_def lent0_def idle0_def newPool_def world0_def world1_def
      allocatedOnly_def fcard_fempty fcard_finsert_if)

text \<open>
  C5 as stated does not hold: on an active pool with nothing available and
  nothing in use, with room for one instance, a \<open>pull\<close> whose dial fails returns
  neither an instance nor the pool-limit error.
\<close>

theorem pull_dial_failure:
  "active newPool \<and> available newPool = {||} \<and> int (fcard (inUse newPool)) < poolsize db1
   \<and> pull db1 None None (newPool, world0) = ((None, Some CannotEstablish), newPool, world0)"
  by (simp add: pull_def newResp_def db1_def newPool_def fcard_fempty)


section \<open>The invariant of the pool\<close>

lemma poolInv_now [simp]: "poolInv db (p, w\<lparr>now := t\<rparr>) = poolInv db (p, w)"
  by (simp add: poolInv_def allocatedOnly_def)





section \<open>Waiting for an instance: outcome and duration\<close>













section \<open>The invariant and the pool operations\<close>





section \<open>The kinds of responses\<close>









section \<open>What Do returns\<close>









section \<open>The value of a status reply\<close>






section \<open>The handshake of a pipeline\<close>


lemma sendCommand_ok:
  assumes "\<not> broken (heap w a)" and "Some a |\<notin>| closed w"
  shows "sendCommand (Some a) c args w
         = Ret (None, w\<lparr>heap := (heap w)(a := (heap w a)\<lparr>cmd := c, written := written (heap w a) @ packet c args\<rparr>)\<rparr>)"
  using assms by (simp add: sendCommand_def Let_def)











section \<open>Collecting the replies of a pipeline\<close>















section \<open>Killed instances\<close>

lemma removed_now [simp]: "removed r (p, w\<lparr>now := t\<rparr>) = removed r (p, w)"
  by (simp add: removed_def)













end
